theory Spec2Isabelle
  imports Main
begin

section \<open>Data model (backend/src/types/mcpTypes.ts)\<close>

text \<open>
  The gateway is the class \<open>McpService\<close> (mcpService.ts). Its data are the zod schemas
  of mcpTypes.ts. Record fields carry a short prefix, because the schemas share field
  names (\<open>id\<close>, \<open>name\<close>, \<open>title\<close>, ...); the part after the prefix is the source's name.
  JSON values the service only passes through (schemas, annotations, arguments) are
  opaque strings. The numbers \<open>timeout\<close> and \<open>maxRetries\<close> are integers here.
\<close>

type_synonym json = string

datatype transport_type = Stdio | Sse | Websocket

fun type_name :: "transport_type \<Rightarrow> string" where
  "type_name Stdio = ''stdio''"
| "type_name Sse = ''sse''"
| "type_name Websocket = ''websocket''"

record McpServerConfig =
  cfg_id :: string
  cfg_name :: string
  cfg_description :: "string option"
  cfg_enabled :: bool
  cfg_type :: transport_type
  cfg_command :: "string option"
  cfg_args :: "string list option"
  cfg_url :: "string option"
  cfg_env :: "(string \<times> string) list option"
  cfg_timeout :: int
  cfg_maxRetries :: int
  cfg_created_at :: "string option"
  cfg_updated_at :: "string option"

record McpToolDefinition =
  td_name :: string
  td_title :: "string option"
  td_description :: "string option"
  td_inputSchema :: "json option"
  td_outputSchema :: "json option"
  td_annotations :: "json option"

record McpTool =
  tool_name :: string
  tool_title :: "string option"
  tool_description :: "string option"
  tool_inputSchema :: "json option"
  tool_outputSchema :: "json option"
  tool_annotations :: "json option"
  tool_serverId :: string

record McpResourceDefinition =
  rd_uri :: string
  rd_name :: string
  rd_title :: "string option"
  rd_description :: "string option"
  rd_mimeType :: "string option"

record McpResource =
  res_uri :: string
  res_name :: string
  res_title :: "string option"
  res_description :: "string option"
  res_mimeType :: "string option"
  res_serverId :: string

record prompt_argument =
  arg_name :: string
  arg_description :: "string option"
  arg_required :: "bool option"

record McpPromptDefinition =
  pd_name :: string
  pd_title :: "string option"
  pd_description :: "string option"
  pd_arguments :: "prompt_argument list option"

record McpPrompt =
  prompt_name :: string
  prompt_title :: "string option"
  prompt_description :: "string option"
  prompt_arguments :: "prompt_argument list option"
  prompt_serverId :: string

datatype status_kind = Connected | Disconnected | Connecting | Error

record capability_flags =
  cap_tools :: bool
  cap_resources :: bool
  cap_prompts :: bool
  cap_logging :: bool

record McpServerStatus =
  st_id :: string
  st_status :: status_kind
  st_lastConnected :: "string option"
  st_error :: "string option"
  st_capabilities :: "capability_flags option"

record McpToolCallRequest =
  call_serverId :: string
  call_toolName :: string
  call_arguments :: "json option"

record content_item =
  ci_type :: string
  ci_text :: "string option"
  ci_data :: "json option"

text \<open>\<open>McpToolCallResult\<close> is what the SDK hands back; the service guards both fields
  with \<open>||\<close>, so either may be missing.\<close>

record McpToolCallResult =
  result_content :: "content_item list option"
  result_isError :: "bool option"

record McpToolCallResponse =
  content :: "content_item list"
  isError :: bool

record McpResourceReadRequest =
  read_serverId :: string
  read_uri :: string

record resource_item =
  rc_uri :: string
  rc_mimeType :: "string option"
  rc_text :: "string option"
  rc_blob :: "string option"

record McpResourceContent =
  contents :: "resource_item list"

section \<open>Thrown values and \<open>getErrorMessage\<close> (backend/src/types/index.ts)\<close>

text \<open>
  A thrown JavaScript value, as far as \<open>getErrorMessage\<close> inspects it:
  \<open>response_data_error\<close> is \<open>error.response?.data?.error\<close> when the value is an object
  with a \<open>response\<close> property, and \<open>Error_message\<close> is \<open>error.message\<close> when the value
  is an \<open>instanceof Error\<close>.
\<close>

datatype thrown = Thrown (response_data_error: "string option") (Error_message: "string option")

definition new_Error :: "string \<Rightarrow> thrown" where
  "new_Error msg = Thrown None (Some msg)"

definition getErrorMessage :: "thrown \<Rightarrow> string \<Rightarrow> string" where
  "getErrorMessage error fallback =
     (case response_data_error error of
        Some e \<Rightarrow>
          (if e \<noteq> [] then e
           else (case Error_message error of Some m \<Rightarrow> m | None \<Rightarrow> fallback))
      | None \<Rightarrow> (case Error_message error of Some m \<Rightarrow> m | None \<Rightarrow> fallback))"

section \<open>The SDK as an environment\<close>

text \<open>
  \<open>Client\<close>, \<open>StdioClientTransport\<close> and \<open>SSEClientTransport\<close> come from the MCP SDK.
  The service's calls into them are recorded, in order, as events; what each awaited
  SDK promise settles with is an argument of the operation that awaits it. Clients and
  transports are identified by handles drawn from a counter. Every awaited promise is
  taken to settle; operations run one at a time.
\<close>

datatype transport = StdioClientTransport nat | SSEClientTransport nat

datatype request =
    ToolsList
  | ResourcesList
  | PromptsList
  | ToolsCall string "json option"
  | ResourcesRead string

datatype event =
    NewClient nat
  | NewTransport transport
  | SetTimeout int
  | ClientConnect nat transport
  | ClientRequest nat request
  | ClientClose nat
  | TransportClose transport

text \<open>Outcome of the two awaited closes in \<open>disconnectFromServer\<close>.\<close>

datatype close_outcome = CloseOk | ClientCloseThrows thrown | TransportCloseThrows thrown

text \<open>Outcome of \<open>Promise.race([client.connect(transport), timeoutPromise])\<close>:
  the handshake settles first (resolved or rejected), or the timer fires first.\<close>

datatype handshake_outcome = ConnectResolves | ConnectRejects thrown | TimeoutFirst

text \<open>A settled promise. For a request it is first what the provider answers (a
  result, or a failure of the request) and then what \<open>client.request\<close> settles with;
  \<open>awaited\<close> adds the time the answer took.\<close>

datatype 'a settled = Resolves 'a | Rejects thrown

record 'a awaited =
  after_ms :: int
  outcome :: "'a settled"

text \<open>
  \<open>client.request(request, resultSchema)\<close> hands the provider's result to
  \<open>resultSchema.parse\<close> and rejects with whatever that throws. Every request of the
  service passes \<open>{} as any\<close> as the schema, an object that has no \<open>parse\<close>: the
  call throws a \<open>TypeError\<close>. \<open>EmptyRequestSchema\<close> (mcpTypes.ts,
  \<open>z.object({}).passthrough()\<close>) lets any result object through; the service never
  uses it.
\<close>

datatype result_schema = EmptyObject | EmptyRequestSchema

definition client_request :: "result_schema \<Rightarrow> 'a settled \<Rightarrow> 'a settled" where
  "client_request resultSchema answer =
     (case answer of
        Rejects e \<Rightarrow> Rejects e
      | Resolves result \<Rightarrow>
          (case resultSchema of
             EmptyObject \<Rightarrow> Rejects (new_Error ''resultSchema.parse is not a function'')
           | EmptyRequestSchema \<Rightarrow> Resolves result))"

text \<open>What \<open>connectToServer\<close> meets: the outcome of closing an old connection, of
  \<open>new URL\<close>, of the handshake race, the provider's answers to the three list
  requests, and the clock.\<close>

record connect_env =
  env_close :: close_outcome
  env_new_URL :: "thrown option"
  env_handshake :: handshake_outcome
  env_tools :: "McpToolDefinition list option settled"
  env_resources :: "McpResourceDefinition list option settled"
  env_prompts :: "McpPromptDefinition list option settled"
  env_now :: string

section \<open>The service state (mcpService.ts)\<close>

record McpClientConnection =
  client :: nat
  transport :: transport
  config :: McpServerConfig
  status :: McpServerStatus
  tools :: "McpTool list"
  resources :: "McpResource list"
  prompts :: "McpPrompt list"

text \<open>
  \<open>connections\<close> is the JavaScript \<open>Map\<close> of the class, kept as an association list in
  insertion order (the order \<open>values()\<close> iterates in): \<open>set\<close> overwrites an existing
  key in place and appends a new one, \<open>delete\<close> removes the key. \<open>trace\<close> and \<open>fresh\<close>
  are the event log and the handle counter of the environment.
\<close>

record McpService =
  connections :: "(string \<times> McpClientConnection) list"
  trace :: "event list"
  fresh :: nat

definition McpService_new :: McpService where
  "McpService_new = \<lparr>connections = [], trace = [], fresh = 0\<rparr>"

definition Map_get :: "(string \<times> 'v) list \<Rightarrow> string \<Rightarrow> 'v option" where
  "Map_get m k = map_of m k"

definition Map_delete :: "(string \<times> 'v) list \<Rightarrow> string \<Rightarrow> (string \<times> 'v) list" where
  "Map_delete m k = filter (\<lambda>kv. fst kv \<noteq> k) m"

fun Map_set :: "(string \<times> 'v) list \<Rightarrow> string \<Rightarrow> 'v \<Rightarrow> (string \<times> 'v) list" where
  "Map_set [] k v = [(k, v)]"
| "Map_set (kv # m) k v = (if fst kv = k then (k, v) # m else kv # Map_set m k v)"

section \<open>Lifecycle\<close>

definition disconnectFromServer :: "string \<Rightarrow> close_outcome \<Rightarrow> McpService \<Rightarrow> McpService" where
  "disconnectFromServer serverId co s =
     (case Map_get (connections s) serverId of
        None \<Rightarrow> s
      | Some connection \<Rightarrow>
          s\<lparr>connections := Map_delete (connections s) serverId,
            trace := trace s @
              (case co of
                 ClientCloseThrows e \<Rightarrow> [ClientClose (client connection)]
               | _ \<Rightarrow> [ClientClose (client connection),
                        TransportClose (transport connection)])\<rparr>)"

definition falsy :: "string option \<Rightarrow> bool" where
  "falsy v = (case v of None \<Rightarrow> True | Some x \<Rightarrow> x = [])"

text \<open>The \<open>if\<close>/\<open>else if\<close>/\<open>else\<close> that builds the transport. On success the
  result is the constructor that was called; \<open>connectToServer\<close> applies it to the
  handle of the new transport.\<close>

definition createTransport ::
  "McpServerConfig \<Rightarrow> thrown option \<Rightarrow> thrown + (nat \<Rightarrow> transport)" where
  "createTransport cfg new_URL =
     (if cfg_type cfg = Stdio then
        (if falsy (cfg_command cfg)
         then Inl (new_Error ''Command is required for stdio transport'')
         else Inr StdioClientTransport)
      else if cfg_type cfg = Sse then
        (if falsy (cfg_url cfg)
         then Inl (new_Error ''URL is required for SSE transport'')
         else (case new_URL of Some e \<Rightarrow> Inl e | None \<Rightarrow> Inr SSEClientTransport))
      else Inl (new_Error (''Unsupported transport type: '' @ type_name (cfg_type cfg))))"

text \<open>The three capability-discovery blocks, each with its own \<open>try\<close>/\<open>catch\<close>.\<close>

definition toTool :: "string \<Rightarrow> McpToolDefinition \<Rightarrow> McpTool" where
  "toTool sid tool =
     \<lparr>tool_name = td_name tool, tool_title = td_title tool,
      tool_description = td_description tool, tool_inputSchema = td_inputSchema tool,
      tool_outputSchema = td_outputSchema tool, tool_annotations = td_annotations tool,
      tool_serverId = sid\<rparr>"

definition toResource :: "string \<Rightarrow> McpResourceDefinition \<Rightarrow> McpResource" where
  "toResource sid resource =
     \<lparr>res_uri = rd_uri resource, res_name = rd_name resource, res_title = rd_title resource,
      res_description = rd_description resource, res_mimeType = rd_mimeType resource,
      res_serverId = sid\<rparr>"

definition toPrompt :: "string \<Rightarrow> McpPromptDefinition \<Rightarrow> McpPrompt" where
  "toPrompt sid prompt =
     \<lparr>prompt_name = pd_name prompt, prompt_title = pd_title prompt,
      prompt_description = pd_description prompt, prompt_arguments = pd_arguments prompt,
      prompt_serverId = sid\<rparr>"

definition listTools :: "McpServerConfig \<Rightarrow> McpToolDefinition list option settled \<Rightarrow> McpTool list" where
  "listTools cfg r =
     (case r of
        Rejects e \<Rightarrow> []
      | Resolves None \<Rightarrow> []
      | Resolves (Some ts) \<Rightarrow> [] @ map (toTool (cfg_id cfg)) ts)"

definition listResources ::
  "McpServerConfig \<Rightarrow> McpResourceDefinition list option settled \<Rightarrow> McpResource list" where
  "listResources cfg r =
     (case r of
        Rejects e \<Rightarrow> []
      | Resolves None \<Rightarrow> []
      | Resolves (Some rs) \<Rightarrow> [] @ map (toResource (cfg_id cfg)) rs)"

definition listPrompts ::
  "McpServerConfig \<Rightarrow> McpPromptDefinition list option settled \<Rightarrow> McpPrompt list" where
  "listPrompts cfg r =
     (case r of
        Rejects e \<Rightarrow> []
      | Resolves None \<Rightarrow> []
      | Resolves (Some ps) \<Rightarrow> [] @ map (toPrompt (cfg_id cfg)) ps)"

definition errorStatus :: "McpServerConfig \<Rightarrow> thrown \<Rightarrow> McpServerStatus" where
  "errorStatus cfg e =
     \<lparr>st_id = cfg_id cfg, st_status = Error, st_lastConnected = None,
      st_error = Some (getErrorMessage e ''Unknown connection error''),
      st_capabilities = None\<rparr>"

definition connectedStatus ::
  "McpServerConfig \<Rightarrow> string \<Rightarrow> McpTool list \<Rightarrow> McpResource list \<Rightarrow> McpPrompt list
     \<Rightarrow> McpServerStatus" where
  "connectedStatus cfg now ts rs ps =
     \<lparr>st_id = cfg_id cfg, st_status = Connected, st_lastConnected = Some now,
      st_error = None,
      st_capabilities = Some \<lparr>cap_tools = length ts > 0, cap_resources = length rs > 0,
                              cap_prompts = length ps > 0, cap_logging = True\<rparr>\<rparr>"

definition connectToServer ::
  "McpServerConfig \<Rightarrow> connect_env \<Rightarrow> McpService \<Rightarrow> McpServerStatus \<times> McpService" where
  "connectToServer cfg env s0 =
     (let s1 = disconnectFromServer (cfg_id cfg) (env_close env) s0;
          c = fresh s1;
          s2 = s1\<lparr>trace := trace s1 @ [NewClient c], fresh := Suc c\<rparr>
      in case createTransport cfg (env_new_URL env) of
           Inl e \<Rightarrow> (errorStatus cfg e, s2)
         | Inr new_transport \<Rightarrow>
            (let t = new_transport (fresh s2);
                 s3 = s2\<lparr>trace := trace s2 @
                           [NewTransport t, SetTimeout (cfg_timeout cfg), ClientConnect c t],
                         fresh := Suc (fresh s2)\<rparr>
             in case env_handshake env of
                  ConnectRejects e \<Rightarrow> (errorStatus cfg e, s3)
                | TimeoutFirst \<Rightarrow> (errorStatus cfg (new_Error ''Connection timeout''), s3)
                | ConnectResolves \<Rightarrow>
                   (let ts = listTools cfg (client_request EmptyObject (env_tools env));
                        rs = listResources cfg (client_request EmptyObject (env_resources env));
                        ps = listPrompts cfg (client_request EmptyObject (env_prompts env));
                        st = connectedStatus cfg (env_now env) ts rs ps;
                        connection = \<lparr>client = c, transport = t, config = cfg, status = st,
                                      tools = ts, resources = rs, prompts = ps\<rparr>
                    in (st, s3\<lparr>connections := Map_set (connections s3) (cfg_id cfg) connection,
                               trace := trace s3 @
                                 [ClientRequest c ToolsList, ClientRequest c ResourcesList,
                                  ClientRequest c PromptsList]\<rparr>))))"

definition getServerStatus :: "string \<Rightarrow> McpService \<Rightarrow> McpServerStatus option" where
  "getServerStatus serverId s =
     (case Map_get (connections s) serverId of
        Some connection \<Rightarrow> Some (status connection)
      | None \<Rightarrow> None)"

definition getAllServerStatuses :: "McpService \<Rightarrow> (string \<times> McpServerStatus) list" where
  "getAllServerStatuses s =
     foldl (\<lambda>statuses kv. Map_set statuses (fst kv) (status (snd kv))) [] (connections s)"

text \<open>\<open>refreshServerCapabilities\<close> clears the three lists on the stored connection
  object and reconnects with its config; the status \<open>connectToServer\<close> returns is dropped.\<close>

definition refreshServerCapabilities :: "string \<Rightarrow> connect_env \<Rightarrow> McpService \<Rightarrow> McpService" where
  "refreshServerCapabilities serverId env s =
     (case Map_get (connections s) serverId of
        None \<Rightarrow> s
      | Some connection \<Rightarrow>
          if st_status (status connection) \<noteq> Connected then s
          else
            (let cleared = connection\<lparr>tools := [], resources := [], prompts := []\<rparr>;
                 s1 = s\<lparr>connections := Map_set (connections s) serverId cleared\<rparr>
             in snd (connectToServer (config connection) env s1)))"

text \<open>\<open>disconnectAll\<close> starts one \<open>disconnectFromServer\<close> per key before it awaits any
  of them: each looks its connection up and calls \<open>client.close()\<close> at once, and goes
  on to \<open>transport.close()\<close> and to the delete of its key once its own
  \<open>client.close()\<close> has settled without throwing. The closes are taken to settle in
  the order they were started.\<close>

definition disconnectAll :: "(string \<Rightarrow> close_outcome) \<Rightarrow> McpService \<Rightarrow> McpService" where
  "disconnectAll co s =
     s\<lparr>connections :=
         fold (\<lambda>serverId m. Map_delete m serverId) (map fst (connections s)) (connections s),
       trace := trace s @
         map (\<lambda>kv. ClientClose (client (snd kv))) (connections s) @
         concat (map (\<lambda>kv. case co (fst kv) of
                              ClientCloseThrows e \<Rightarrow> []
                            | _ \<Rightarrow> [TransportClose (transport (snd kv))])
                   (connections s))\<rparr>"

section \<open>Capability aggregator\<close>

definition getAllTools :: "McpService \<Rightarrow> McpTool list" where
  "getAllTools s =
     foldl (\<lambda>allTools connection.
              if st_status (status connection) = Connected
              then allTools @ tools connection else allTools)
       [] (map snd (connections s))"

definition getServerTools :: "string \<Rightarrow> McpService \<Rightarrow> McpTool list" where
  "getServerTools serverId s =
     (case Map_get (connections s) serverId of
        Some connection \<Rightarrow>
          if st_status (status connection) = Connected then tools connection else []
      | None \<Rightarrow> [])"

definition getAllResources :: "McpService \<Rightarrow> McpResource list" where
  "getAllResources s =
     foldl (\<lambda>allResources connection.
              if st_status (status connection) = Connected
              then allResources @ resources connection else allResources)
       [] (map snd (connections s))"

definition getServerResources :: "string \<Rightarrow> McpService \<Rightarrow> McpResource list" where
  "getServerResources serverId s =
     (case Map_get (connections s) serverId of
        Some connection \<Rightarrow>
          if st_status (status connection) = Connected then resources connection else []
      | None \<Rightarrow> [])"

definition getAllPrompts :: "McpService \<Rightarrow> McpPrompt list" where
  "getAllPrompts s =
     foldl (\<lambda>allPrompts connection.
              if st_status (status connection) = Connected
              then allPrompts @ prompts connection else allPrompts)
       [] (map snd (connections s))"

definition getServerPrompts :: "string \<Rightarrow> McpService \<Rightarrow> McpPrompt list" where
  "getServerPrompts serverId s =
     (case Map_get (connections s) serverId of
        Some connection \<Rightarrow>
          if st_status (status connection) = Connected then prompts connection else []
      | None \<Rightarrow> [])"

section \<open>Invocation router\<close>

text \<open>Both operations return what the caller gets (\<open>Inl\<close> the thrown \<open>Error\<close>) and the
  state afterwards; \<open>reply\<close> is the provider's answer and the time it took. Neither
  sets a timer; how long the request took is not looked at. The answer to
  \<open>resources/read\<close> is given by the \<open>contents\<close> field of the result, which the service
  guards with \<open>||\<close>.\<close>

definition callTool ::
  "McpToolCallRequest \<Rightarrow> McpToolCallResult awaited \<Rightarrow> McpService
     \<Rightarrow> (thrown + McpToolCallResponse) \<times> McpService" where
  "callTool request reply s =
     (case Map_get (connections s) (call_serverId request) of
        None \<Rightarrow> (Inl (new_Error (''MCP server '' @ call_serverId request @ '' not connected'')), s)
      | Some connection \<Rightarrow>
          if st_status (status connection) \<noteq> Connected
          then (Inl (new_Error (''MCP server '' @ call_serverId request @ '' is not connected'')), s)
          else
            (let s1 = s\<lparr>trace := trace s @
                          [ClientRequest (client connection)
                             (ToolsCall (call_toolName request) (call_arguments request))]\<rparr>
             in case client_request EmptyObject (outcome reply) of
                  Resolves result \<Rightarrow>
                    (Inr \<lparr>content = (case result_content result of Some c \<Rightarrow> c | None \<Rightarrow> []),
                          isError = (case result_isError result of Some b \<Rightarrow> b | None \<Rightarrow> False)\<rparr>,
                     s1)
                | Rejects e \<Rightarrow>
                    (Inl (new_Error (''Failed to call tool '' @ call_toolName request @ '': '' @
                                     getErrorMessage e ''Unknown error'')),
                     s1)))"

definition readResource ::
  "McpResourceReadRequest \<Rightarrow> resource_item list option awaited \<Rightarrow> McpService
     \<Rightarrow> (thrown + McpResourceContent) \<times> McpService" where
  "readResource request reply s =
     (case Map_get (connections s) (read_serverId request) of
        None \<Rightarrow> (Inl (new_Error (''MCP server '' @ read_serverId request @ '' not connected'')), s)
      | Some connection \<Rightarrow>
          if st_status (status connection) \<noteq> Connected
          then (Inl (new_Error (''MCP server '' @ read_serverId request @ '' is not connected'')), s)
          else
            (let s1 = s\<lparr>trace := trace s @
                          [ClientRequest (client connection) (ResourcesRead (read_uri request))]\<rparr>
             in case client_request EmptyObject (outcome reply) of
                  Resolves cs \<Rightarrow>
                    (Inr \<lparr>contents = (case cs of Some c \<Rightarrow> c | None \<Rightarrow> [])\<rparr>, s1)
                | Rejects e \<Rightarrow>
                    (Inl (new_Error (''Failed to read resource '' @ read_uri request @ '': '' @
                                     getErrorMessage e ''Unknown error'')),
                     s1)))"

section \<open>Runs of the service\<close>

text \<open>Every state the service can be in is the result of a sequence of its public
  operations, started from the freshly constructed instance.\<close>

datatype op =
    OpConnect McpServerConfig connect_env
  | OpDisconnect string close_outcome
  | OpRefresh string connect_env
  | OpDisconnectAll "string \<Rightarrow> close_outcome"
  | OpCallTool McpToolCallRequest "McpToolCallResult awaited"
  | OpReadResource McpResourceReadRequest "resource_item list option awaited"

fun exec :: "McpService \<Rightarrow> op \<Rightarrow> McpService" where
  "exec s (OpConnect cfg env) = snd (connectToServer cfg env s)"
| "exec s (OpDisconnect serverId co) = disconnectFromServer serverId co s"
| "exec s (OpRefresh serverId env) = refreshServerCapabilities serverId env s"
| "exec s (OpDisconnectAll co) = disconnectAll co s"
| "exec s (OpCallTool request reply) = snd (callTool request reply s)"
| "exec s (OpReadResource request reply) = snd (readResource request reply s)"

definition run :: "op list \<Rightarrow> McpService" where
  "run ops = foldl exec McpService_new ops"

section \<open>Well-formed states\<close>

text \<open>The connection object \<open>connectToServer\<close> stores on success, for client handle
  \<open>c\<close> and transport \<open>t\<close>.\<close>

definition stored :: "McpServerConfig \<Rightarrow> connect_env \<Rightarrow> nat \<Rightarrow> transport \<Rightarrow> McpClientConnection" where
  "stored cfg env c t =
     \<lparr>client = c, transport = t, config = cfg,
      status = connectedStatus cfg (env_now env)
                 (listTools cfg (client_request EmptyObject (env_tools env)))
                 (listResources cfg (client_request EmptyObject (env_resources env)))
                 (listPrompts cfg (client_request EmptyObject (env_prompts env))),
      tools = listTools cfg (client_request EmptyObject (env_tools env)),
      resources = listResources cfg (client_request EmptyObject (env_resources env)),
      prompts = listPrompts cfg (client_request EmptyObject (env_prompts env))\<rparr>"

text \<open>What holds of every stored connection: it is filed under its own config id, its
  status is \<open>connected\<close>, and its three lists are empty (no list request ever
  resolves). Keys and client handles are not shared between entries.\<close>

definition conn_ok :: "string \<Rightarrow> McpClientConnection \<Rightarrow> bool" where
  "conn_ok k c =
     (cfg_id (config c) = k \<and> st_id (status c) = k \<and> st_status (status c) = Connected \<and>
      tools c = [] \<and> resources c = [] \<and> prompts c = [])"

definition invariant :: "McpService \<Rightarrow> bool" where
  "invariant s =
     (distinct (map fst (connections s)) \<and>
      distinct (map (\<lambda>kv. client (snd kv)) (connections s)) \<and>
      list_all (\<lambda>kv. conn_ok (fst kv) (snd kv) \<and> client (snd kv) < fresh s) (connections s))"

section \<open>Example configurations and environments\<close>

definition example_config :: "string \<Rightarrow> transport_type \<Rightarrow> int \<Rightarrow> McpServerConfig" where
  "example_config sid ty ms =
     \<lparr>cfg_id = sid, cfg_name = sid, cfg_description = None, cfg_enabled = True,
      cfg_type = ty, cfg_command = Some ''npx'', cfg_args = Some [''server''],
      cfg_url = Some ''http://localhost:8080/mcp'', cfg_env = None, cfg_timeout = ms,
      cfg_maxRetries = 3, cfg_created_at = None, cfg_updated_at = None\<rparr>"

definition websocket_config :: McpServerConfig where
  "websocket_config =
     \<lparr>cfg_id = ''W'', cfg_name = ''W'', cfg_description = None, cfg_enabled = True,
      cfg_type = Websocket, cfg_command = None, cfg_args = None,
      cfg_url = Some ''ws://localhost:8080/mcp'', cfg_env = None, cfg_timeout = 30000,
      cfg_maxRetries = 3, cfg_created_at = None, cfg_updated_at = None\<rparr>"

definition search_tool :: McpToolDefinition where
  "search_tool =
     \<lparr>td_name = ''search'', td_title = None, td_description = None, td_inputSchema = None,
      td_outputSchema = None, td_annotations = None\<rparr>"

definition readme_resource :: McpResourceDefinition where
  "readme_resource =
     \<lparr>rd_uri = ''file:///README.md'', rd_name = ''readme'', rd_title = None,
      rd_description = None, rd_mimeType = None\<rparr>"

definition greet_prompt :: McpPromptDefinition where
  "greet_prompt =
     \<lparr>pd_name = ''greet'', pd_title = None, pd_description = Some ''Say hello'',
      pd_arguments = Some [\<lparr>arg_name = ''who'', arg_description = None,
                             arg_required = Some True\<rparr>]\<rparr>"

definition example_env ::
  "handshake_outcome \<Rightarrow> McpPromptDefinition list option settled \<Rightarrow> connect_env" where
  "example_env h ps =
     \<lparr>env_close = CloseOk, env_new_URL = None, env_handshake = h,
      env_tools = Resolves (Some [search_tool]),
      env_resources = Resolves (Some [readme_resource]),
      env_prompts = ps, env_now = ''2025-01-01T00:00:00.000Z''\<rparr>"

definition example_call :: McpToolCallRequest where
  "example_call = \<lparr>call_serverId = ''A'', call_toolName = ''search'', call_arguments = None\<rparr>"

definition example_read :: McpResourceReadRequest where
  "example_read = \<lparr>read_serverId = ''A'', read_uri = ''file:///README.md''\<rparr>"

definition example_result :: McpToolCallResult where
  "example_result =
     \<lparr>result_content = Some [\<lparr>ci_type = ''text'', ci_text = Some ''done'', ci_data = None\<rparr>],
      result_isError = None\<rparr>"

definition example_contents :: "resource_item list" where
  "example_contents =
     [\<lparr>rc_uri = ''file:///README.md'', rc_mimeType = None, rc_text = Some ''hello'',
       rc_blob = None\<rparr>]"

lemmas example_defs =
  example_config_def websocket_config_def search_tool_def readme_resource_def
  greet_prompt_def example_env_def

lemmas call_defs = example_call_def example_read_def example_result_def example_contents_def

lemmas service_defs =
  run_def McpService_new_def client_request_def connectToServer_def disconnectFromServer_def
  refreshServerCapabilities_def createTransport_def falsy_def errorStatus_def
  connectedStatus_def listTools_def listResources_def listPrompts_def toTool_def
  toResource_def toPrompt_def getErrorMessage_def new_Error_def Map_get_def Map_delete_def
  getServerStatus_def getServerTools_def getServerResources_def getServerPrompts_def
  getAllTools_def getAllResources_def getAllPrompts_def callTool_def readResource_def
  Let_def

section \<open>The connection map\<close>

lemma Map_get_delete: "Map_get (Map_delete m k) k' = (if k' = k then None else Map_get m k')"
  by (induction m) (auto simp: Map_get_def Map_delete_def)

lemma Map_get_set: "Map_get (Map_set m k v) k' = (if k' = k then Some v else Map_get m k')"
  by (induction m) (auto simp: Map_get_def)

lemma Map_delete_absent: "Map_get m k = None \<Longrightarrow> Map_delete m k = m"
  by (induction m) (auto simp: Map_get_def Map_delete_def split: if_splits)

lemma Map_set_absent: "Map_get m k = None \<Longrightarrow> Map_set m k v = m @ [(k, v)]"
  by (induction m) (auto simp: Map_get_def split: if_splits)

lemma Map_set_present:
  "map fst (Map_set m k v) = (if Map_get m k = None then map fst m @ [k] else map fst m)"
  by (induction m) (auto simp: Map_get_def split: if_splits)

lemma connections_disconnect:
  "connections (disconnectFromServer k co s) = Map_delete (connections s) k"
  by (simp add: disconnectFromServer_def Map_delete_absent split: option.splits)

lemma fresh_disconnect: "fresh (disconnectFromServer k co s) = fresh s"
  by (simp add: disconnectFromServer_def split: option.splits)

section \<open>Effect of the lifecycle operations\<close>

lemma connections_connect:
  "connections (snd (connectToServer cfg env s)) =
     (case createTransport cfg (env_new_URL env) of
        Inl e \<Rightarrow> Map_delete (connections s) (cfg_id cfg)
      | Inr mk \<Rightarrow>
          (case env_handshake env of
             ConnectResolves \<Rightarrow>
               Map_delete (connections s) (cfg_id cfg) @
                 [(cfg_id cfg, stored cfg env (fresh s) (mk (Suc (fresh s))))]
           | ConnectRejects e \<Rightarrow> Map_delete (connections s) (cfg_id cfg)
           | TimeoutFirst \<Rightarrow> Map_delete (connections s) (cfg_id cfg)))"
  by (simp add: connectToServer_def Let_def connections_disconnect fresh_disconnect
      Map_set_absent Map_get_delete stored_def
      split: sum.splits handshake_outcome.splits)

lemma Map_get_append_new:
  "Map_get (Map_delete m k @ [(k, v)]) k' = (if k' = k then Some v else Map_get m k')"
proof -
  have "Map_delete m k @ [(k, v)] = Map_set (Map_delete m k) k v"
    by (simp add: Map_set_absent Map_get_delete)
  then show ?thesis
    by (simp add: Map_get_set Map_get_delete)
qed

lemma fst_connect:
  "fst (connectToServer cfg env s) =
     (case createTransport cfg (env_new_URL env) of
        Inl e \<Rightarrow> errorStatus cfg e
      | Inr mk \<Rightarrow>
          (case env_handshake env of
             ConnectResolves \<Rightarrow> status (stored cfg env (fresh s) (mk (Suc (fresh s))))
           | ConnectRejects e \<Rightarrow> errorStatus cfg e
           | TimeoutFirst \<Rightarrow> errorStatus cfg (new_Error ''Connection timeout'')))"
  by (simp add: connectToServer_def Let_def stored_def
      split: sum.splits handshake_outcome.splits)

lemma Map_get_connect:
  "Map_get (connections (snd (connectToServer cfg env s))) k =
     (if k = cfg_id cfg then
        (case createTransport cfg (env_new_URL env) of
           Inl e \<Rightarrow> None
         | Inr mk \<Rightarrow>
             (case env_handshake env of
                ConnectResolves \<Rightarrow> Some (stored cfg env (fresh s) (mk (Suc (fresh s))))
              | ConnectRejects e \<Rightarrow> None
              | TimeoutFirst \<Rightarrow> None))
      else Map_get (connections s) k)"
  by (simp add: connections_connect Map_get_delete Map_get_append_new
      split: sum.splits handshake_outcome.splits)

lemma trace_connect:
  "trace (snd (connectToServer cfg env s)) =
     trace (disconnectFromServer (cfg_id cfg) (env_close env) s) @
     NewClient (fresh s) #
     (case createTransport cfg (env_new_URL env) of
        Inl e \<Rightarrow> []
      | Inr mk \<Rightarrow>
          [NewTransport (mk (Suc (fresh s))), SetTimeout (cfg_timeout cfg),
           ClientConnect (fresh s) (mk (Suc (fresh s)))] @
          (case env_handshake env of
             ConnectResolves \<Rightarrow>
               [ClientRequest (fresh s) ToolsList, ClientRequest (fresh s) ResourcesList,
                ClientRequest (fresh s) PromptsList]
           | ConnectRejects e \<Rightarrow> []
           | TimeoutFirst \<Rightarrow> []))"
  by (simp add: connectToServer_def Let_def fresh_disconnect
      split: sum.splits handshake_outcome.splits)

lemma status_kind_stored: "st_status (status (stored cfg env c t)) = Connected"
  by (simp add: stored_def connectedStatus_def)

text \<open>With \<open>{} as any\<close> as the schema no request resolves, so each discovery block
  ends in its \<open>catch\<close>.\<close>

lemma client_request_EmptyObject:
  "client_request EmptyObject answer =
     Rejects (case answer of
                Rejects e \<Rightarrow> e
              | Resolves result \<Rightarrow> new_Error ''resultSchema.parse is not a function'')"
  by (simp add: client_request_def split: settled.splits)

lemma discovery_empty:
  "listTools cfg (client_request EmptyObject a) = []"
  "listResources cfg (client_request EmptyObject b) = []"
  "listPrompts cfg (client_request EmptyObject d) = []"
  by (simp_all add: client_request_EmptyObject listTools_def listResources_def listPrompts_def)

lemma stored_lists:
  "tools (stored cfg env c t) = []"
  "resources (stored cfg env c t) = []"
  "prompts (stored cfg env c t) = []"
  by (simp_all add: stored_def discovery_empty)

section \<open>The invariant holds in every run\<close>

lemma invariant_new: "invariant McpService_new"
  by (simp add: invariant_def McpService_new_def)

lemma distinct_Map_delete: "distinct (map f m) \<Longrightarrow> distinct (map f (Map_delete m k))"
  by (simp add: Map_delete_def distinct_map_filter)

lemma list_all_Map_delete: "list_all P m \<Longrightarrow> list_all P (Map_delete m k)"
  by (simp add: Map_delete_def list_all_iff)

lemma keys_Map_delete: "k \<notin> fst ` set (Map_delete m k)"
  by (auto simp: Map_delete_def)

lemma conn_ok_stored: "conn_ok (cfg_id cfg) (stored cfg env c t)"
  by (simp add: conn_ok_def stored_lists) (simp add: stored_def connectedStatus_def)

lemma fresh_connect_Suc: "fresh s < fresh (snd (connectToServer cfg env s))"
  by (simp add: connectToServer_def Let_def fresh_disconnect
      split: sum.splits handshake_outcome.splits)

lemma invariant_disconnect: "invariant s \<Longrightarrow> invariant (disconnectFromServer k co s)"
  by (simp add: invariant_def connections_disconnect fresh_disconnect distinct_Map_delete
      list_all_Map_delete)

lemma invariant_connect:
  assumes "invariant s"
  shows "invariant (snd (connectToServer cfg env s))"
proof -
  let ?s' = "snd (connectToServer cfg env s)"
  let ?d = "Map_delete (connections s) (cfg_id cfg)"
  have d1: "distinct (map fst ?d)" and d2: "distinct (map (\<lambda>kv. client (snd kv)) ?d)"
    using assms by (simp_all add: invariant_def distinct_Map_delete)
  have d3: "list_all (\<lambda>kv. conn_ok (fst kv) (snd kv) \<and> client (snd kv) < fresh s) ?d"
    using assms by (simp add: invariant_def list_all_Map_delete)
  have lt: "fresh s < fresh ?s'" by (rule fresh_connect_Suc)
  have d4: "list_all (\<lambda>kv. conn_ok (fst kv) (snd kv) \<and> client (snd kv) < fresh ?s') ?d"
    using d3 lt by (auto simp: list_all_iff)
  have nk: "cfg_id cfg \<notin> fst ` set ?d" by (rule keys_Map_delete)
  have nc: "fresh s \<notin> (\<lambda>kv. client (snd kv)) ` set ?d"
    using d3 by (auto simp: list_all_iff)
  have "connections ?s' = ?d \<or>
        (\<exists>t. connections ?s' = ?d @ [(cfg_id cfg, stored cfg env (fresh s) t)])"
    by (auto simp: connections_connect split: sum.splits handshake_outcome.splits)
  then consider (same) "connections ?s' = ?d"
    | (added) t where "connections ?s' = ?d @ [(cfg_id cfg, stored cfg env (fresh s) t)]"
    by blast
  then show ?thesis
  proof cases
    case same
    then show ?thesis using d1 d2 d4 by (simp add: invariant_def)
  next
    case added
    have "client (stored cfg env (fresh s) t) = fresh s" by (simp add: stored_def)
    then show ?thesis
      using added d1 d2 d4 nk nc lt conn_ok_stored [of cfg env "fresh s" t]
      by (simp add: invariant_def)
  qed
qed

lemma list_all_Map_set: "list_all P m \<Longrightarrow> P (k, v) \<Longrightarrow> list_all P (Map_set m k v)"
  by (induction m) auto

lemma map_snd_Map_set:
  "Map_get m k = Some c \<Longrightarrow> f v = f c \<Longrightarrow>
   map (\<lambda>kv. f (snd kv)) (Map_set m k v) = map (\<lambda>kv. f (snd kv)) m"
  by (induction m) (auto simp: Map_get_def split: if_splits)

lemma Map_get_in_set: "Map_get m k = Some c \<Longrightarrow> (k, c) \<in> set m"
  by (simp add: Map_get_def map_of_SomeD)

lemma in_set_Map_get: "distinct (map fst m) \<Longrightarrow> (k, c) \<in> set m \<Longrightarrow> Map_get m k = Some c"
  by (simp add: Map_get_def)

lemma connections_callTool: "connections (snd (callTool request reply s)) = connections s"
  by (simp add: callTool_def Let_def split: option.splits settled.splits)

lemma fresh_callTool: "fresh (snd (callTool request reply s)) = fresh s"
  by (simp add: callTool_def Let_def split: option.splits settled.splits)

lemma connections_readResource: "connections (snd (readResource request reply s)) = connections s"
  by (simp add: readResource_def Let_def split: option.splits settled.splits)

lemma fresh_readResource: "fresh (snd (readResource request reply s)) = fresh s"
  by (simp add: readResource_def Let_def split: option.splits settled.splits)

lemma invariant_cleared:
  assumes "invariant s" and "Map_get (connections s) k = Some c"
  shows "invariant (s\<lparr>connections :=
            Map_set (connections s) k (c\<lparr>tools := [], resources := [], prompts := []\<rparr>)\<rparr>)"
proof -
  let ?v = "c\<lparr>tools := [], resources := [], prompts := []\<rparr>"
  have in_m: "(k, c) \<in> set (connections s)"
    using assms(2) by (rule Map_get_in_set)
  then have ok: "conn_ok k c \<and> client c < fresh s"
    using assms(1) by (auto simp: invariant_def list_all_iff)
  then have ok': "conn_ok k ?v \<and> client ?v < fresh s"
    by (simp add: conn_ok_def)
  have keys: "map fst (Map_set (connections s) k ?v) = map fst (connections s)"
    using assms(2) by (simp add: Map_set_present)
  have clients: "map (\<lambda>kv. client (snd kv)) (Map_set (connections s) k ?v) =
                 map (\<lambda>kv. client (snd kv)) (connections s)"
    using assms(2) by (rule map_snd_Map_set) simp
  have "list_all (\<lambda>kv. conn_ok (fst kv) (snd kv) \<and> client (snd kv) < fresh s)
          (Map_set (connections s) k ?v)"
    using assms(1) ok' by (intro list_all_Map_set) (simp_all add: invariant_def)
  then show ?thesis
    using assms(1) keys clients by (simp add: invariant_def)
qed

lemma invariant_refresh: "invariant s \<Longrightarrow> invariant (refreshServerCapabilities k env s)"
  by (simp add: refreshServerCapabilities_def Let_def invariant_connect invariant_cleared
      split: option.splits)

lemma distinct_fold_Map_delete:
  "distinct (map f m) \<Longrightarrow> distinct (map f (fold (\<lambda>k m. Map_delete m k) ks m))"
  by (induction ks arbitrary: m) (simp_all add: distinct_Map_delete)

lemma list_all_fold_Map_delete:
  "list_all P m \<Longrightarrow> list_all P (fold (\<lambda>k m. Map_delete m k) ks m)"
  by (induction ks arbitrary: m) (simp_all add: list_all_Map_delete)

lemma invariant_disconnectAll: "invariant s \<Longrightarrow> invariant (disconnectAll co s)"
  by (simp add: invariant_def disconnectAll_def distinct_fold_Map_delete
      list_all_fold_Map_delete)

lemma invariant_exec: "invariant s \<Longrightarrow> invariant (exec s x)"
proof (cases x)
  case (OpCallTool request reply)
  assume "invariant s"
  then show ?thesis
    by (simp add: OpCallTool invariant_def connections_callTool fresh_callTool)
next
  case (OpReadResource request reply)
  assume "invariant s"
  then show ?thesis
    by (simp add: OpReadResource invariant_def connections_readResource fresh_readResource)
qed (simp_all add: invariant_connect invariant_disconnect invariant_refresh
      invariant_disconnectAll)

lemma invariant_foldl: "invariant s \<Longrightarrow> invariant (foldl exec s xs)"
  by (induction xs arbitrary: s) (simp_all add: invariant_exec)

lemma invariant_run: "invariant (run xs)"
  by (simp add: run_def invariant_foldl invariant_new)

section \<open>Claims\<close>

subsection \<open>C1: a failed handshake\<close>

text \<open>
  C1 as stated asks that, after a connect attempt that fails in the handshake, the
  \<open>error\<close> status can be read back through \<open>getServerStatus\<close>. The \<open>catch\<close> block of
  \<open>connectToServer\<close> only returns the error status; nothing is stored, so the query
  yields \<open>null\<close>.
\<close>

theorem failed_connect_status_not_stored:
  "st_status (fst (connectToServer (example_config ''A'' Stdio 1000)
      (example_env TimeoutFirst (Resolves None)) McpService_new)) = Error \<and>
   getServerStatus ''A'' (snd (connectToServer (example_config ''A'' Stdio 1000)
      (example_env TimeoutFirst (Resolves None)) McpService_new)) = None"
  by (simp add: service_defs example_defs)

text \<open>
  C1 (amended): for every provider config whose connect attempt fails during the
  transport handshake (the handshake rejects, or the timer fires first),
  \<open>connectToServer\<close> returns a status with kind \<open>error\<close> and the error message set;
  no connection is stored for the provider, so its per-provider tool, resource and
  prompt lists are empty and the per-provider status query yields nothing.
\<close>

theorem connect_handshake_failure:
  assumes "createTransport cfg (env_new_URL env) = Inr mk"
    and "env_handshake env = ConnectRejects e \<or> env_handshake env = TimeoutFirst"
  shows "st_id (fst (connectToServer cfg env s)) = cfg_id cfg \<and>
         st_status (fst (connectToServer cfg env s)) = Error \<and>
         st_error (fst (connectToServer cfg env s)) =
           Some (if env_handshake env = TimeoutFirst then ''Connection timeout''
                 else getErrorMessage e ''Unknown connection error'') \<and>
         getServerStatus (cfg_id cfg) (snd (connectToServer cfg env s)) = None \<and>
         getServerTools (cfg_id cfg) (snd (connectToServer cfg env s)) = [] \<and>
         getServerResources (cfg_id cfg) (snd (connectToServer cfg env s)) = [] \<and>
         getServerPrompts (cfg_id cfg) (snd (connectToServer cfg env s)) = []"
proof -
  have none: "Map_get (connections (snd (connectToServer cfg env s))) (cfg_id cfg) = None"
    using assms by (auto simp: Map_get_connect)
  have st: "fst (connectToServer cfg env s) =
            errorStatus cfg (if env_handshake env = TimeoutFirst
                             then new_Error ''Connection timeout'' else e)"
    using assms by (auto simp: fst_connect)
  have msg: "getErrorMessage (new_Error ''Connection timeout'') ''Unknown connection error'' =
             ''Connection timeout''"
    by (simp add: getErrorMessage_def new_Error_def)
  show ?thesis
    using none msg
    by (simp add: st errorStatus_def getServerStatus_def getServerTools_def
        getServerResources_def getServerPrompts_def)
qed

theorem connect_handshake_failure_witness:
  "createTransport (example_config ''A'' Stdio 1000)
     (env_new_URL (example_env TimeoutFirst (Resolves None))) = Inr StdioClientTransport \<and>
   env_handshake (example_env TimeoutFirst (Resolves None)) = TimeoutFirst \<and>
   st_status (fst (connectToServer (example_config ''A'' Stdio 1000)
      (example_env TimeoutFirst (Resolves None))
      (run [OpConnect (example_config ''A'' Stdio 1000)
              (example_env ConnectResolves (Resolves None))]))) = Error \<and>
   st_error (fst (connectToServer (example_config ''A'' Stdio 1000)
      (example_env TimeoutFirst (Resolves None))
      (run [OpConnect (example_config ''A'' Stdio 1000)
              (example_env ConnectResolves (Resolves None))]))) = Some ''Connection timeout'' \<and>
   getServerStatus ''A'' (snd (connectToServer (example_config ''A'' Stdio 1000)
      (example_env TimeoutFirst (Resolves None))
      (run [OpConnect (example_config ''A'' Stdio 1000)
              (example_env ConnectResolves (Resolves None))]))) = None \<and>
   env_handshake (example_env (ConnectRejects (new_Error ''spawn npx ENOENT'')) (Resolves None))
     = ConnectRejects (new_Error ''spawn npx ENOENT'') \<and>
   st_error (fst (connectToServer (example_config ''A'' Stdio 1000)
      (example_env (ConnectRejects (new_Error ''spawn npx ENOENT'')) (Resolves None))
      McpService_new)) = Some ''spawn npx ENOENT'' \<and>
   getServerTools ''A'' (snd (connectToServer (example_config ''A'' Stdio 1000)
      (example_env (ConnectRejects (new_Error ''spawn npx ENOENT'')) (Resolves None))
      McpService_new)) = []"
proof -
  let ?late = "example_env TimeoutFirst (Resolves None)"
  let ?bad = "example_env (ConnectRejects (new_Error ''spawn npx ENOENT'')) (Resolves None)"
  have h1: "createTransport (example_config ''A'' Stdio 1000) (env_new_URL ?late)
              = Inr StdioClientTransport"
    by (simp add: createTransport_def falsy_def example_defs)
  have h2: "env_handshake ?late = ConnectRejects (new_Error [])
            \<or> env_handshake ?late = TimeoutFirst"
    by (simp add: example_defs)
  have h3: "createTransport (example_config ''A'' Stdio 1000) (env_new_URL ?bad)
              = Inr StdioClientTransport"
    by (simp add: createTransport_def falsy_def example_defs)
  have h4: "env_handshake ?bad = ConnectRejects (new_Error ''spawn npx ENOENT'')
            \<or> env_handshake ?bad = TimeoutFirst"
    by (simp add: example_defs)
  have id: "cfg_id (example_config ''A'' Stdio 1000) = ''A''"
    by (simp add: example_defs)
  have msg: "getErrorMessage (new_Error ''spawn npx ENOENT'') ''Unknown connection error''
             = ''spawn npx ENOENT''"
    by (simp add: getErrorMessage_def new_Error_def)
  show ?thesis
    using h1
      connect_handshake_failure [OF h1 h2,
        of "run [OpConnect (example_config ''A'' Stdio 1000)
                   (example_env ConnectResolves (Resolves None))]"]
      connect_handshake_failure [OF h3 h4, of McpService_new]
    by (simp add: id msg example_env_def)
qed

subsection \<open>C2: the transport of a failed connect\<close>

text \<open>
  C2 asks that a connect attempt which times out, or fails after the transport was
  constructed, closes that transport. The \<open>catch\<close> block of \<open>connectToServer\<close> calls
  neither \<open>client.close()\<close> nor \<open>transport.close()\<close>, and stores nothing that a later
  \<open>disconnectFromServer\<close> could close. Two timed-out attempts for the same provider
  construct two transports; no close event follows either.
\<close>

theorem failed_connects_leave_transports_open:
  "trace (run [OpConnect (example_config ''A'' Stdio 1000) (example_env TimeoutFirst (Resolves None)),
               OpConnect (example_config ''A'' Stdio 1000) (example_env TimeoutFirst (Resolves None))]) =
     [NewClient 0, NewTransport (StdioClientTransport 1), SetTimeout 1000,
      ClientConnect 0 (StdioClientTransport 1),
      NewClient 2, NewTransport (StdioClientTransport 3), SetTimeout 1000,
      ClientConnect 2 (StdioClientTransport 3)] \<and>
   connections (run [OpConnect (example_config ''A'' Stdio 1000) (example_env TimeoutFirst (Resolves None)),
               OpConnect (example_config ''A'' Stdio 1000) (example_env TimeoutFirst (Resolves None))]) = []"
  by (simp add: service_defs example_defs)

subsection \<open>C3: choice of the transport\<close>

text \<open>
  C3 as stated asks that none of the three declared transport types is rejected as
  unsupported. The schema admits \<open>websocket\<close>, but \<open>connectToServer\<close> builds a
  transport for \<open>stdio\<close> and \<open>sse\<close> only; any other type falls into the \<open>else\<close>
  branch, which throws before a transport exists or a handshake is tried.
\<close>

theorem websocket_rejected_as_unsupported:
  "fst (connectToServer websocket_config
          (example_env ConnectResolves (Resolves None)) McpService_new) =
     \<lparr>st_id = ''W'', st_status = Error, st_lastConnected = None,
      st_error = Some ''Unsupported transport type: websocket'', st_capabilities = None\<rparr> \<and>
   trace (snd (connectToServer websocket_config
          (example_env ConnectResolves (Resolves None)) McpService_new)) = [NewClient 0]"
  by (simp add: service_defs example_defs)

text \<open>
  C3 (amended): for a config of type \<open>stdio\<close> with a non-empty command, and for a
  config of type \<open>sse\<close> with a non-empty URL that \<open>new URL\<close> accepts,
  \<open>connectToServer\<close> constructs a transport of that kind, sets the timer and
  attempts the handshake on that transport; a config of type \<open>websocket\<close> is
  rejected with the error "Unsupported transport type: websocket", with no transport
  constructed and no handshake attempted.
\<close>

theorem transport_selected_by_type:
  "(cfg_type cfg = Stdio \<and> \<not> falsy (cfg_command cfg) \<longrightarrow>
      createTransport cfg (env_new_URL env) = Inr StdioClientTransport \<and>
      (\<exists>rest. trace (snd (connectToServer cfg env s)) =
         trace (disconnectFromServer (cfg_id cfg) (env_close env) s) @
         [NewClient (fresh s), NewTransport (StdioClientTransport (Suc (fresh s))),
          SetTimeout (cfg_timeout cfg),
          ClientConnect (fresh s) (StdioClientTransport (Suc (fresh s)))] @ rest)) \<and>
   (cfg_type cfg = Sse \<and> \<not> falsy (cfg_url cfg) \<and> env_new_URL env = None \<longrightarrow>
      createTransport cfg (env_new_URL env) = Inr SSEClientTransport \<and>
      (\<exists>rest. trace (snd (connectToServer cfg env s)) =
         trace (disconnectFromServer (cfg_id cfg) (env_close env) s) @
         [NewClient (fresh s), NewTransport (SSEClientTransport (Suc (fresh s))),
          SetTimeout (cfg_timeout cfg),
          ClientConnect (fresh s) (SSEClientTransport (Suc (fresh s)))] @ rest)) \<and>
   (cfg_type cfg = Websocket \<longrightarrow>
      fst (connectToServer cfg env s) =
        errorStatus cfg (new_Error ''Unsupported transport type: websocket'') \<and>
      trace (snd (connectToServer cfg env s)) =
        trace (disconnectFromServer (cfg_id cfg) (env_close env) s) @ [NewClient (fresh s)])"
proof (intro conjI impI)
  assume a: "cfg_type cfg = Stdio \<and> \<not> falsy (cfg_command cfg)"
  then show c: "createTransport cfg (env_new_URL env) = Inr StdioClientTransport"
    by (simp add: createTransport_def)
  show "\<exists>rest. trace (snd (connectToServer cfg env s)) =
         trace (disconnectFromServer (cfg_id cfg) (env_close env) s) @
         [NewClient (fresh s), NewTransport (StdioClientTransport (Suc (fresh s))),
          SetTimeout (cfg_timeout cfg),
          ClientConnect (fresh s) (StdioClientTransport (Suc (fresh s)))] @ rest"
    by (simp add: trace_connect c)
next
  assume a: "cfg_type cfg = Sse \<and> \<not> falsy (cfg_url cfg) \<and> env_new_URL env = None"
  then show c: "createTransport cfg (env_new_URL env) = Inr SSEClientTransport"
    by (simp add: createTransport_def)
  show "\<exists>rest. trace (snd (connectToServer cfg env s)) =
         trace (disconnectFromServer (cfg_id cfg) (env_close env) s) @
         [NewClient (fresh s), NewTransport (SSEClientTransport (Suc (fresh s))),
          SetTimeout (cfg_timeout cfg),
          ClientConnect (fresh s) (SSEClientTransport (Suc (fresh s)))] @ rest"
    by (simp add: trace_connect c)
next
  assume a: "cfg_type cfg = Websocket"
  then have c: "createTransport cfg (env_new_URL env) =
                Inl (new_Error ''Unsupported transport type: websocket'')"
    by (simp add: createTransport_def)
  show "fst (connectToServer cfg env s) =
        errorStatus cfg (new_Error ''Unsupported transport type: websocket'')"
    by (simp add: fst_connect c)
  show "trace (snd (connectToServer cfg env s)) =
        trace (disconnectFromServer (cfg_id cfg) (env_close env) s) @ [NewClient (fresh s)]"
    by (simp add: trace_connect c)
qed

theorem transport_selected_by_type_witness:
  "cfg_type (example_config ''A'' Stdio 1000) = Stdio \<and>
   \<not> falsy (cfg_command (example_config ''A'' Stdio 1000)) \<and>
   trace (snd (connectToServer (example_config ''A'' Stdio 1000)
                 (example_env TimeoutFirst (Resolves None)) McpService_new))
     = [NewClient 0, NewTransport (StdioClientTransport 1), SetTimeout 1000,
        ClientConnect 0 (StdioClientTransport 1)] \<and>
   cfg_type (example_config ''B'' Sse 1000) = Sse \<and>
   \<not> falsy (cfg_url (example_config ''B'' Sse 1000)) \<and>
   env_new_URL (example_env ConnectResolves (Resolves None)) = None \<and>
   trace (snd (connectToServer (example_config ''B'' Sse 1000)
                 (example_env ConnectResolves (Resolves None)) McpService_new))
     = [NewClient 0, NewTransport (SSEClientTransport 1), SetTimeout 1000,
        ClientConnect 0 (SSEClientTransport 1), ClientRequest 0 ToolsList,
        ClientRequest 0 ResourcesList, ClientRequest 0 PromptsList] \<and>
   cfg_type websocket_config = Websocket \<and>
   st_error (fst (connectToServer websocket_config
                 (example_env ConnectResolves (Resolves None)) McpService_new)) =
     Some ''Unsupported transport type: websocket''"
proof -
  let ?late = "example_env TimeoutFirst (Resolves None)"
  let ?env = "example_env ConnectResolves (Resolves None)"
  have a: "cfg_type (example_config ''A'' Stdio 1000) = Stdio \<and>
           \<not> falsy (cfg_command (example_config ''A'' Stdio 1000))"
    by (simp add: example_defs falsy_def)
  have b: "cfg_type (example_config ''B'' Sse 1000) = Sse \<and>
           \<not> falsy (cfg_url (example_config ''B'' Sse 1000)) \<and> env_new_URL ?env = None"
    by (simp add: example_defs falsy_def)
  have w: "cfg_type websocket_config = Websocket"
    by (simp add: example_defs)
  have ta: "trace (snd (connectToServer (example_config ''A'' Stdio 1000) ?late McpService_new))
     = [NewClient 0, NewTransport (StdioClientTransport 1), SetTimeout 1000,
        ClientConnect 0 (StdioClientTransport 1)]"
    by (simp add: service_defs example_defs)
  have tb: "trace (snd (connectToServer (example_config ''B'' Sse 1000) ?env McpService_new))
     = [NewClient 0, NewTransport (SSEClientTransport 1), SetTimeout 1000,
        ClientConnect 0 (SSEClientTransport 1), ClientRequest 0 ToolsList,
        ClientRequest 0 ResourcesList, ClientRequest 0 PromptsList]"
    by (simp add: service_defs example_defs)
  have m: "st_error (errorStatus websocket_config
             (new_Error ''Unsupported transport type: websocket'')) =
           Some ''Unsupported transport type: websocket''"
    by (simp add: errorStatus_def getErrorMessage_def new_Error_def)
  have "st_error (fst (connectToServer websocket_config ?env
                         McpService_new)) = Some ''Unsupported transport type: websocket''"
    using w m
      transport_selected_by_type [of websocket_config ?env McpService_new]
    by simp
  then show ?thesis
    using a b w ta tb
      transport_selected_by_type [of "example_config ''A'' Stdio 1000" ?late McpService_new]
      transport_selected_by_type [of "example_config ''B'' Sse 1000" ?env McpService_new]
    by simp
qed

subsection \<open>C4: the connectivity precondition\<close>

text \<open>
  C4: when the provider id has no connection, or its connection is not in
  \<open>connected\<close> status, \<open>callTool\<close> fails with a not-connected error and performs no
  transport I/O: the state, and with it the event trace, is unchanged. The same holds
  of \<open>readResource\<close>.
\<close>

theorem invocation_requires_connected:
  assumes "Map_get (connections s) serverId = None \<or>
           (\<exists>c. Map_get (connections s) serverId = Some c \<and> st_status (status c) \<noteq> Connected)"
    and "call_serverId request = serverId"
    and "read_serverId rrequest = serverId"
  shows "(fst (callTool request reply s) =
            Inl (new_Error (''MCP server '' @ serverId @ '' not connected'')) \<or>
          fst (callTool request reply s) =
            Inl (new_Error (''MCP server '' @ serverId @ '' is not connected''))) \<and>
         snd (callTool request reply s) = s \<and>
         trace (snd (callTool request reply s)) = trace s \<and>
         (fst (readResource rrequest rreply s) =
            Inl (new_Error (''MCP server '' @ serverId @ '' not connected'')) \<or>
          fst (readResource rrequest rreply s) =
            Inl (new_Error (''MCP server '' @ serverId @ '' is not connected''))) \<and>
         snd (readResource rrequest rreply s) = s \<and>
         trace (snd (readResource rrequest rreply s)) = trace s"
  using assms by (auto simp: callTool_def readResource_def)

theorem invocation_requires_connected_witness:
  "Map_get (connections McpService_new) ''A'' = None \<and>
   call_serverId example_call = ''A'' \<and> read_serverId example_read = ''A'' \<and>
   fst (callTool example_call \<lparr>after_ms = 10, outcome = Resolves example_result\<rparr>
          McpService_new) = Inl (new_Error ''MCP server A not connected'') \<and>
   trace (snd (callTool example_call \<lparr>after_ms = 10, outcome = Resolves example_result\<rparr>
          McpService_new)) = [] \<and>
   fst (readResource example_read \<lparr>after_ms = 10, outcome = Resolves (Some example_contents)\<rparr>
          McpService_new) = Inl (new_Error ''MCP server A not connected'') \<and>
   trace (snd (readResource example_read
          \<lparr>after_ms = 10, outcome = Resolves (Some example_contents)\<rparr> McpService_new)) = []"
proof -
  have h1: "Map_get (connections McpService_new) ''A'' = None \<or>
            (\<exists>c. Map_get (connections McpService_new) ''A'' = Some c \<and>
                 st_status (status c) \<noteq> Connected)"
    by (simp add: McpService_new_def Map_get_def)
  have h2: "call_serverId example_call = ''A''" and h3: "read_serverId example_read = ''A''"
    by (simp_all add: call_defs)
  have n: "Map_get (connections McpService_new) ''A'' = None" "trace McpService_new = []"
    by (simp_all add: McpService_new_def Map_get_def)
  have d: "new_Error ''MCP server A is not connected'' \<noteq> new_Error ''MCP server A not connected''"
    by (simp add: new_Error_def)
  have c: "fst (callTool example_call \<lparr>after_ms = 10, outcome = Resolves example_result\<rparr>
             McpService_new) \<noteq> Inl (new_Error ''MCP server A is not connected'')"
    by (simp add: callTool_def n h2 new_Error_def)
  have r: "fst (readResource example_read
             \<lparr>after_ms = 10, outcome = Resolves (Some example_contents)\<rparr> McpService_new)
           \<noteq> Inl (new_Error ''MCP server A is not connected'')"
    by (simp add: readResource_def n h3 new_Error_def)
  show ?thesis
    using n h2 h3 c r
      invocation_requires_connected [OF h1 h2 h3,
        of "\<lparr>after_ms = 10, outcome = Resolves example_result\<rparr>"
           "\<lparr>after_ms = 10, outcome = Resolves (Some example_contents)\<rparr>"]
    by simp
qed

subsection \<open>C5: capability discovery\<close>

text \<open>When the handshake succeeds, \<open>connectToServer\<close> stores the provider as
  \<open>connected\<close> whatever the three list requests do: each sits in its own
  \<open>try\<close>/\<open>catch\<close>. But no list is ever populated.\<close>

lemma handshake_success_stores_connected:
  assumes "createTransport cfg (env_new_URL env) = Inr mk"
    and "env_handshake env = ConnectResolves"
  shows "st_status (fst (connectToServer cfg env s)) = Connected"
    and "getServerStatus (cfg_id cfg) (snd (connectToServer cfg env s)) =
           Some (fst (connectToServer cfg env s))"
    and "getServerTools (cfg_id cfg) (snd (connectToServer cfg env s)) = []"
    and "getServerResources (cfg_id cfg) (snd (connectToServer cfg env s)) = []"
    and "getServerPrompts (cfg_id cfg) (snd (connectToServer cfg env s)) = []"
proof -
  let ?c = "stored cfg env (fresh s) (mk (Suc (fresh s)))"
  have g: "Map_get (connections (snd (connectToServer cfg env s))) (cfg_id cfg) = Some ?c"
    using assms by (simp add: Map_get_connect)
  have f: "fst (connectToServer cfg env s) = status ?c"
    using assms by (simp add: fst_connect)
  show "st_status (fst (connectToServer cfg env s)) = Connected"
    by (simp add: f status_kind_stored)
  show "getServerStatus (cfg_id cfg) (snd (connectToServer cfg env s)) =
           Some (fst (connectToServer cfg env s))"
    by (simp add: getServerStatus_def g f)
  show "getServerTools (cfg_id cfg) (snd (connectToServer cfg env s)) = []"
    by (simp add: getServerTools_def g stored_lists)
  show "getServerResources (cfg_id cfg) (snd (connectToServer cfg env s)) = []"
    by (simp add: getServerResources_def g stored_lists)
  show "getServerPrompts (cfg_id cfg) (snd (connectToServer cfg env s)) = []"
    by (simp add: getServerPrompts_def g stored_lists)
qed

text \<open>
  C5 asks that a provider whose handshake succeeds and whose "list prompts" request
  fails ends \<open>connected\<close> with tools and resources populated from their list requests
  and prompts empty. The provider does end \<open>connected\<close>, and no list failure reaches
  the status. The tools and resources are lost, though: the provider below answers
  \<open>tools/list\<close> with the tool "search" and \<open>resources/list\<close> with the resource
  "readme", each request rejects on its \<open>{} as any\<close> schema, and the stored
  connection has all three lists empty and all three capability flags false. The
  same discovery blocks store the full descriptors, tagged with the provider id,
  when the request is given the \<open>EmptyRequestSchema\<close> of mcpTypes.ts.
\<close>

theorem list_answers_are_lost:
  "env_tools (example_env ConnectResolves (Rejects (new_Error ''Method not found'')))
     = Resolves (Some [search_tool]) \<and>
   env_resources (example_env ConnectResolves (Rejects (new_Error ''Method not found'')))
     = Resolves (Some [readme_resource]) \<and>
   fst (connectToServer (example_config ''A'' Stdio 1000)
          (example_env ConnectResolves (Rejects (new_Error ''Method not found'')))
          McpService_new)
     = \<lparr>st_id = ''A'', st_status = Connected,
        st_lastConnected = Some ''2025-01-01T00:00:00.000Z'', st_error = None,
        st_capabilities = Some \<lparr>cap_tools = False, cap_resources = False,
                                  cap_prompts = False, cap_logging = True\<rparr>\<rparr> \<and>
   getServerTools ''A'' (snd (connectToServer (example_config ''A'' Stdio 1000)
          (example_env ConnectResolves (Rejects (new_Error ''Method not found'')))
          McpService_new)) = [] \<and>
   getServerResources ''A'' (snd (connectToServer (example_config ''A'' Stdio 1000)
          (example_env ConnectResolves (Rejects (new_Error ''Method not found'')))
          McpService_new)) = [] \<and>
   getServerPrompts ''A'' (snd (connectToServer (example_config ''A'' Stdio 1000)
          (example_env ConnectResolves (Rejects (new_Error ''Method not found'')))
          McpService_new)) = [] \<and>
   listTools (example_config ''A'' Stdio 1000)
     (client_request EmptyRequestSchema (Resolves (Some [search_tool])))
     = [\<lparr>tool_name = ''search'', tool_title = None, tool_description = None,
         tool_inputSchema = None, tool_outputSchema = None, tool_annotations = None,
         tool_serverId = ''A''\<rparr>] \<and>
   listResources (example_config ''A'' Stdio 1000)
     (client_request EmptyRequestSchema (Resolves (Some [readme_resource])))
     = [\<lparr>res_uri = ''file:///README.md'', res_name = ''readme'', res_title = None,
         res_description = None, res_mimeType = None, res_serverId = ''A''\<rparr>] \<and>
   listPrompts (example_config ''A'' Stdio 1000)
     (client_request EmptyRequestSchema (Resolves (Some [greet_prompt])))
     = [\<lparr>prompt_name = ''greet'', prompt_title = None,
         prompt_description = Some ''Say hello'',
         prompt_arguments = Some [\<lparr>arg_name = ''who'', arg_description = None,
                                      arg_required = Some True\<rparr>],
         prompt_serverId = ''A''\<rparr>]"
  by (simp add: service_defs example_defs)

subsection \<open>C6: refresh\<close>





subsection \<open>C7: aggregated views and routing\<close>

text \<open>The aggregated views are the lists of the entries in \<open>connected\<close> status,
  concatenated in map order, and \<open>callTool\<close> issues its one request on the client of
  the provider it is addressed to, which no other provider shares.\<close>

lemma foldl_push:
  "foldl (\<lambda>acc x. if P x then acc @ f x else acc) acc xs =
     acc @ concat (map f (filter P xs))"
  by (induction xs arbitrary: acc) simp_all

lemma getAllTools_concat:
  "getAllTools s =
     concat (map (\<lambda>kv. tools (snd kv))
               (filter (\<lambda>kv. st_status (status (snd kv)) = Connected) (connections s)))"
  by (simp add: getAllTools_def foldl_push filter_map comp_def)

lemma getAllResources_concat:
  "getAllResources s =
     concat (map (\<lambda>kv. resources (snd kv))
               (filter (\<lambda>kv. st_status (status (snd kv)) = Connected) (connections s)))"
  by (simp add: getAllResources_def foldl_push filter_map comp_def)

lemma getAllPrompts_concat:
  "getAllPrompts s =
     concat (map (\<lambda>kv. prompts (snd kv))
               (filter (\<lambda>kv. st_status (status (snd kv)) = Connected) (connections s)))"
  by (simp add: getAllPrompts_def foldl_push filter_map comp_def)

lemma run_entry:
  assumes "(k, c) \<in> set (connections (run ops))"
  shows "conn_ok k c" and "Map_get (connections (run ops)) k = Some c"
proof -
  show "conn_ok k c"
    using assms invariant_run [of ops] by (auto simp: invariant_def list_all_iff)
  have "distinct (map fst (connections (run ops)))"
    using invariant_run [of ops] by (simp add: invariant_def)
  then show "Map_get (connections (run ops)) k = Some c"
    using assms by (rule in_set_Map_get)
qed

lemma routed_to_own_client:
  assumes a: "Map_get (connections (run ops)) a = Some ca"
    and b: "Map_get (connections (run ops)) b = Some cb"
    and ne: "a \<noteq> b"
    and req: "call_serverId request = a"
  shows "trace (snd (callTool request reply (run ops))) =
           trace (run ops) @
           [ClientRequest (client ca) (ToolsCall (call_toolName request) (call_arguments request))]"
    and "client ca \<noteq> client cb"
proof -
  have ia: "(a, ca) \<in> set (connections (run ops))" and ib: "(b, cb) \<in> set (connections (run ops))"
    using a b by (simp_all add: Map_get_in_set)
  have "st_status (status ca) = Connected"
    using run_entry(1) [OF ia] by (simp add: conn_ok_def)
  then show "trace (snd (callTool request reply (run ops))) =
           trace (run ops) @
           [ClientRequest (client ca) (ToolsCall (call_toolName request) (call_arguments request))]"
    using a req by (simp add: callTool_def Let_def split: settled.splits)
  have "distinct (map (\<lambda>kv. client (snd kv)) (connections (run ops)))"
    using invariant_run [of ops] by (simp add: invariant_def)
  then have "inj_on (\<lambda>kv. client (snd kv)) (set (connections (run ops)))"
    by (simp add: distinct_map)
  then have "client ca = client cb \<Longrightarrow> (a, ca) = (b, cb)"
    using ia ib inj_onD [of "\<lambda>kv. client (snd kv)" "set (connections (run ops))" "(a, ca)" "(b, cb)"]
    by simp
  then show "client ca \<noteq> client cb"
    using ne by auto
qed

text \<open>
  C7: the aggregated tool, resource and prompt views are exactly the lists of the
  connections in \<open>connected\<close> status, concatenated in map order, and nothing from a
  connection in another status. In every run each aggregated descriptor carries the
  id of the connected provider whose list holds it. When two connected providers
  \<open>a\<close> and \<open>b\<close> expose tools of the same name, both descriptors are in the
  aggregate, they differ in their provider id, and \<open>callTool\<close> addressed to \<open>a\<close>
  issues its one request on \<open>a\<close>'s client, which is not \<open>b\<close>'s.
\<close>

text \<open>In every run the aggregate is empty, since every stored list is.\<close>

lemma aggregate_empty:
  "getAllTools (run ops) = []" "getAllResources (run ops) = []" "getAllPrompts (run ops) = []"
proof -
  have "\<And>kv. kv \<in> set (connections (run ops)) \<Longrightarrow> conn_ok (fst kv) (snd kv)"
    using invariant_run [of ops] by (auto simp: invariant_def list_all_iff)
  then have e: "\<And>kv. kv \<in> set (connections (run ops)) \<Longrightarrow>
      tools (snd kv) = [] \<and> resources (snd kv) = [] \<and> prompts (snd kv) = []"
    by (simp add: conn_ok_def)
  show "getAllTools (run ops) = []"
    using e by (simp add: getAllTools_concat)
  show "getAllResources (run ops) = []"
    using e by (simp add: getAllResources_concat)
  show "getAllPrompts (run ops) = []"
    using e by (simp add: getAllPrompts_concat)
qed

text \<open>
  C7 asks, besides the union and the routing, that two connected providers A and B
  which each expose a tool named "search" give an aggregate with two descriptors,
  told apart by their provider id. Both providers below answer \<open>tools/list\<close> with
  "search" and both end \<open>connected\<close>; each list request rejects on its \<open>{} as any\<close>
  schema, so neither connection stores the tool and the aggregate is empty.
\<close>

theorem same_named_tools_not_aggregated:
  "env_tools (example_env ConnectResolves (Resolves None)) = Resolves (Some [search_tool]) \<and>
   map_option st_status
     (getServerStatus ''A'' (run [OpConnect (example_config ''A'' Stdio 1000)
                                   (example_env ConnectResolves (Resolves None)),
                                 OpConnect (example_config ''B'' Sse 1000)
                                   (example_env ConnectResolves (Resolves None))]))
     = Some Connected \<and>
   map_option st_status
     (getServerStatus ''B'' (run [OpConnect (example_config ''A'' Stdio 1000)
                                   (example_env ConnectResolves (Resolves None)),
                                 OpConnect (example_config ''B'' Sse 1000)
                                   (example_env ConnectResolves (Resolves None))]))
     = Some Connected \<and>
   getAllTools (run [OpConnect (example_config ''A'' Stdio 1000)
                       (example_env ConnectResolves (Resolves None)),
                     OpConnect (example_config ''B'' Sse 1000)
                       (example_env ConnectResolves (Resolves None))]) = [] \<and>
   getServerTools ''A'' (run [OpConnect (example_config ''A'' Stdio 1000)
                                (example_env ConnectResolves (Resolves None)),
                              OpConnect (example_config ''B'' Sse 1000)
                                (example_env ConnectResolves (Resolves None))]) = [] \<and>
   getServerTools ''B'' (run [OpConnect (example_config ''A'' Stdio 1000)
                                (example_env ConnectResolves (Resolves None)),
                              OpConnect (example_config ''B'' Sse 1000)
                                (example_env ConnectResolves (Resolves None))]) = []"
  by (simp add: service_defs example_defs)

subsection \<open>C8: requests and the configured timeout\<close>




subsection \<open>C9: invocations leave the connection alone\<close>

text \<open>
  C9: for a connected provider, neither \<open>callTool\<close> nor \<open>readResource\<close> changes the
  connection map (status, capability lists, timestamps), whatever the request
  settles with: the provider's status stays as it was, \<open>connected\<close>. A request that
  fails at the transport surfaces as an error to the caller.
\<close>

theorem invocation_keeps_connection_state:
  assumes "Map_get (connections s) serverId = Some c"
    and "st_status (status c) = Connected"
    and "call_serverId request = serverId"
    and "read_serverId rrequest = serverId"
  shows "connections (snd (callTool request reply s)) = connections s \<and>
         connections (snd (readResource rrequest rreply s)) = connections s \<and>
         getServerStatus serverId (snd (callTool request reply s)) = Some (status c) \<and>
         getServerStatus serverId (snd (readResource rrequest rreply s)) = Some (status c) \<and>
         (\<forall>e. outcome reply = Rejects e \<longrightarrow>
            fst (callTool request reply s) =
              Inl (new_Error (''Failed to call tool '' @ call_toolName request @ '': '' @
                              getErrorMessage e ''Unknown error'')) \<and>
            getServerStatus serverId (snd (callTool request reply s)) = Some (status c)) \<and>
         (\<forall>e. outcome rreply = Rejects e \<longrightarrow>
            fst (readResource rrequest rreply s) =
              Inl (new_Error (''Failed to read resource '' @ read_uri rrequest @ '': '' @
                              getErrorMessage e ''Unknown error'')) \<and>
            getServerStatus serverId (snd (readResource rrequest rreply s)) = Some (status c))"
proof -
  have ct: "connections (snd (callTool request reply s)) = connections s"
    by (rule connections_callTool)
  have rr: "connections (snd (readResource rrequest rreply s)) = connections s"
    by (rule connections_readResource)
  have gc: "getServerStatus serverId (snd (callTool request reply s)) = Some (status c)"
    using assms(1) by (simp add: getServerStatus_def ct)
  have gr: "getServerStatus serverId (snd (readResource rrequest rreply s)) = Some (status c)"
    using assms(1) by (simp add: getServerStatus_def rr)
  have c_err: "outcome reply = Rejects e \<Longrightarrow>
      fst (callTool request reply s) =
        Inl (new_Error (''Failed to call tool '' @ call_toolName request @ '': '' @
                        getErrorMessage e ''Unknown error''))"
    for e
    using assms by (simp add: callTool_def Let_def client_request_def)
  have r_err: "outcome rreply = Rejects e \<Longrightarrow>
      fst (readResource rrequest rreply s) =
        Inl (new_Error (''Failed to read resource '' @ read_uri rrequest @ '': '' @
                        getErrorMessage e ''Unknown error''))"
    for e
    using assms by (simp add: readResource_def Let_def client_request_def)
  show ?thesis
    using ct rr gc gr c_err r_err by blast
qed

theorem invocation_keeps_connection_state_witness:
  "Map_get (connections (run [OpConnect (example_config ''A'' Stdio 1000)
                                (example_env ConnectResolves (Resolves None))])) ''A''
     = Some (stored (example_config ''A'' Stdio 1000)
               (example_env ConnectResolves (Resolves None)) 0 (StdioClientTransport 1)) \<and>
   st_status (status (stored (example_config ''A'' Stdio 1000)
               (example_env ConnectResolves (Resolves None)) 0 (StdioClientTransport 1)))
     = Connected \<and>
   call_serverId example_call = ''A'' \<and> read_serverId example_read = ''A'' \<and>
   fst (callTool example_call
          \<lparr>after_ms = 10, outcome = Rejects (new_Error ''Connection closed'')\<rparr>
          (run [OpConnect (example_config ''A'' Stdio 1000)
                  (example_env ConnectResolves (Resolves None))]))
     = Inl (new_Error ''Failed to call tool search: Connection closed'') \<and>
   connections (snd (callTool example_call
          \<lparr>after_ms = 10, outcome = Rejects (new_Error ''Connection closed'')\<rparr>
          (run [OpConnect (example_config ''A'' Stdio 1000)
                  (example_env ConnectResolves (Resolves None))])))
     = connections (run [OpConnect (example_config ''A'' Stdio 1000)
                           (example_env ConnectResolves (Resolves None))]) \<and>
   fst (readResource example_read
          \<lparr>after_ms = 10, outcome = Rejects (new_Error ''Connection closed'')\<rparr>
          (run [OpConnect (example_config ''A'' Stdio 1000)
                  (example_env ConnectResolves (Resolves None))]))
     = Inl (new_Error ''Failed to read resource file:///README.md: Connection closed'') \<and>
   connections (snd (readResource example_read
          \<lparr>after_ms = 10, outcome = Resolves (Some example_contents)\<rparr>
          (run [OpConnect (example_config ''A'' Stdio 1000)
                  (example_env ConnectResolves (Resolves None))])))
     = connections (run [OpConnect (example_config ''A'' Stdio 1000)
                           (example_env ConnectResolves (Resolves None))])"
proof -
  let ?s = "run [OpConnect (example_config ''A'' Stdio 1000)
                   (example_env ConnectResolves (Resolves None))]"
  let ?c = "stored (example_config ''A'' Stdio 1000)
              (example_env ConnectResolves (Resolves None)) 0 (StdioClientTransport 1)"
  let ?bad = "Rejects (new_Error ''Connection closed'')"
  have h1: "Map_get (connections ?s) ''A'' = Some ?c"
    by (simp add: service_defs stored_def example_defs)
  have h2: "st_status (status ?c) = Connected"
    by (rule status_kind_stored)
  have h3: "call_serverId example_call = ''A''" and h4: "read_serverId example_read = ''A''"
    by (simp_all add: call_defs)
  have m: "getErrorMessage (new_Error ''Connection closed'') ''Unknown error'' = ''Connection closed''"
    by (simp add: getErrorMessage_def new_Error_def)
  have n: "call_toolName example_call = ''search''" "read_uri example_read = ''file:///README.md''"
    by (simp_all add: call_defs)
  show ?thesis
    using h1 h2 h3 h4
      invocation_keeps_connection_state [OF h1 h2 h3 h4,
        of "\<lparr>after_ms = 10, outcome = ?bad\<rparr>" "\<lparr>after_ms = 10, outcome = ?bad\<rparr>"]
      invocation_keeps_connection_state [OF h1 h2 h3 h4,
        of "\<lparr>after_ms = 10, outcome = ?bad\<rparr>"
           "\<lparr>after_ms = 10, outcome = Resolves (Some example_contents)\<rparr>"]
    by (simp add: m n)
qed

subsection \<open>C10: what the connection map holds\<close>

lemma stored_status_connected:
  assumes "Map_get (connections (run ops)) k = Some c"
  shows "st_status (status c) = Connected"
proof -
  have "(k, c) \<in> set (connections (run ops))"
    using assms by (rule Map_get_in_set)
  then have "conn_ok k c"
    using invariant_run [of ops] by (auto simp: invariant_def list_all_iff)
  then show ?thesis by (simp add: conn_ok_def)
qed

text \<open>
  C10: in every run of the service, every connection stored in the map has status
  \<open>connected\<close>; so the per-provider status query yields a \<open>connected\<close> status or
  nothing, and a connect that does not return \<open>connected\<close> leaves no entry for that
  provider. The other three status kinds occur only in returned values.
\<close>

theorem stored_connections_are_connected:
  "list_all (\<lambda>kv. st_status (status (snd kv)) = Connected) (connections (run ops)) \<and>
   (getServerStatus serverId (run ops) = None \<or>
    (\<exists>st. getServerStatus serverId (run ops) = Some st \<and> st_status st = Connected)) \<and>
   (st_status (fst (connectToServer cfg env (run ops))) \<noteq> Connected \<longrightarrow>
      Map_get (connections (snd (connectToServer cfg env (run ops)))) (cfg_id cfg) = None \<and>
      getServerStatus (cfg_id cfg) (snd (connectToServer cfg env (run ops))) = None)"
proof (intro conjI impI)
  show "list_all (\<lambda>kv. st_status (status (snd kv)) = Connected) (connections (run ops))"
    using invariant_run [of ops] by (auto simp: invariant_def conn_ok_def list_all_iff)
  show "getServerStatus serverId (run ops) = None \<or>
        (\<exists>st. getServerStatus serverId (run ops) = Some st \<and> st_status st = Connected)"
    by (auto simp: getServerStatus_def stored_status_connected split: option.splits)
next
  assume f: "st_status (fst (connectToServer cfg env (run ops))) \<noteq> Connected"
  then show n: "Map_get (connections (snd (connectToServer cfg env (run ops)))) (cfg_id cfg) = None"
    by (auto simp: fst_connect Map_get_connect status_kind_stored
        split: sum.splits handshake_outcome.splits)
  show "getServerStatus (cfg_id cfg) (snd (connectToServer cfg env (run ops))) = None"
    by (simp add: getServerStatus_def n)
qed

theorem stored_connections_are_connected_witness:
  "list_all (\<lambda>kv. st_status (status (snd kv)) = Connected)
     (connections (run [OpConnect (example_config ''A'' Stdio 1000)
                          (example_env ConnectResolves (Resolves None))])) \<and>
   map fst (connections (run [OpConnect (example_config ''A'' Stdio 1000)
                          (example_env ConnectResolves (Resolves None))])) = [''A''] \<and>
   st_status (fst (connectToServer (example_config ''A'' Stdio 1000)
      (example_env (ConnectRejects (new_Error ''spawn ENOENT'')) (Resolves None))
      (run [OpConnect (example_config ''A'' Stdio 1000)
              (example_env ConnectResolves (Resolves None))]))) = Error \<and>
   getServerStatus ''A'' (snd (connectToServer (example_config ''A'' Stdio 1000)
      (example_env (ConnectRejects (new_Error ''spawn ENOENT'')) (Resolves None))
      (run [OpConnect (example_config ''A'' Stdio 1000)
              (example_env ConnectResolves (Resolves None))]))) = None"
proof -
  let ?ops = "[OpConnect (example_config ''A'' Stdio 1000)
                 (example_env ConnectResolves (Resolves None))]"
  let ?env = "example_env (ConnectRejects (new_Error ''spawn ENOENT'')) (Resolves None)"
  have k: "map fst (connections (run ?ops)) = [''A'']"
    by (simp add: service_defs example_defs)
  have h: "st_status (fst (connectToServer (example_config ''A'' Stdio 1000) ?env (run ?ops)))
           = Error"
    by (simp add: fst_connect createTransport_def falsy_def errorStatus_def example_defs)
  have id: "cfg_id (example_config ''A'' Stdio 1000) = ''A''"
    by (simp add: example_defs)
  show ?thesis
    using k h
      stored_connections_are_connected [of ?ops "''A''" "example_config ''A'' Stdio 1000" ?env]
    by (simp add: id)
qed

end
